theory Spec2Isabelle
  imports Complex_Main
begin

section \<open>Errors\<close>

text \<open>
  The exceptions that the modelled code of \<^verbatim>\<open>tf/edgeml/graph/rnn.py\<close> can raise.
  \<open>ValueError\<close> is what the tensor library raises for incompatible shapes,
  \<open>AttributeError\<close> a read of an instance attribute that was never assigned,
  \<open>NameError\<close> a read of a name bound nowhere, \<open>KeyError\<close> a tensor name the graph
  does not hold.
\<close>

datatype error =
  ValueError | AttributeError | IndexError | AssertionError | NameError | KeyError

definition ebind :: "error + 'a \<Rightarrow> ('a \<Rightarrow> error + 'b) \<Rightarrow> error + 'b" where
  "ebind m f = (case m of Inl e \<Rightarrow> Inl e | Inr v \<Rightarrow> f v)"

section \<open>Dense rank-2 tensors\<close>

text \<open>
  Every tensor the two cells touch has rank 2: a static shape and the entries, row by
  row. Entries are real numbers; the rounding of \<^verbatim>\<open>tf.float32\<close> is not part
  of the model.
\<close>

datatype tensor = Tensor (nrows: nat) (ncols: nat) (rowsdata: "real list list")

definition shape :: "tensor \<Rightarrow> nat \<times> nat" where
  "shape t = (nrows t, ncols t)"

definition el :: "tensor \<Rightarrow> nat \<Rightarrow> nat \<Rightarrow> real" where
  "el t i j = rowsdata t ! i ! j"

definition wf_tensor :: "tensor \<Rightarrow> bool" where
  "wf_tensor t \<longleftrightarrow>
     length (rowsdata t) = nrows t \<and> list_all (\<lambda>r. length r = ncols t) (rowsdata t)"

text \<open>The tensor of shape \<open>[r, c]\<close> whose entry \<open>(i, j)\<close> is \<open>f i j\<close>.\<close>

definition tab :: "nat \<Rightarrow> nat \<Rightarrow> (nat \<Rightarrow> nat \<Rightarrow> real) \<Rightarrow> tensor" where
  "tab r c f = Tensor r c (map (\<lambda>i. map (f i) [0..<c]) [0..<r])"

subsection \<open>The primitives of the tensor library\<close>

text \<open>
  \<^verbatim>\<open>math_ops.matmul(a, b)\<close>: the inner dimensions must agree, otherwise the library
  raises.
\<close>

definition matmul :: "tensor \<Rightarrow> tensor \<Rightarrow> error + tensor" where
  "matmul a b =
     (if ncols a = nrows b
      then Inr (tab (nrows a) (ncols b) (\<lambda>i j. \<Sum>k<ncols a. el a i k * el b k j))
      else Inl ValueError)"

text \<open>
  Broadcasting of a binary elementwise operator: two dimensions are compatible when
  they are equal or one of them is 1; the dimension of size 1 is read at index 0.
\<close>

definition bdim :: "nat \<Rightarrow> nat \<Rightarrow> nat option" where
  "bdim m n = (if m = n then Some m else if m = 1 then Some n
               else if n = 1 then Some m else None)"

definition bidx :: "nat \<Rightarrow> nat \<Rightarrow> nat" where
  "bidx n i = (if n = 1 then 0 else i)"

definition broadcast_op :: "(real \<Rightarrow> real \<Rightarrow> real) \<Rightarrow> tensor \<Rightarrow> tensor \<Rightarrow> error + tensor" where
  "broadcast_op f a b =
     (case bdim (nrows a) (nrows b) of
        None \<Rightarrow> Inl ValueError
      | Some r \<Rightarrow>
          (case bdim (ncols a) (ncols b) of
             None \<Rightarrow> Inl ValueError
           | Some c \<Rightarrow>
               Inr (tab r c (\<lambda>i j. f (el a (bidx (nrows a) i) (bidx (ncols a) j))
                                      (el b (bidx (nrows b) i) (bidx (ncols b) j))))))"

definition tensor_add :: "tensor \<Rightarrow> tensor \<Rightarrow> error + tensor" where
  "tensor_add = broadcast_op (+)"

definition tensor_mul :: "tensor \<Rightarrow> tensor \<Rightarrow> error + tensor" where
  "tensor_mul = broadcast_op (*)"

text \<open>An elementwise operator with one tensor operand; a Python float operand is
  part of the operator.\<close>

definition tensor_map :: "(real \<Rightarrow> real) \<Rightarrow> tensor \<Rightarrow> tensor" where
  "tensor_map f t = tab (nrows t) (ncols t) (\<lambda>i j. f (el t i j))"

definition sigmoid :: "real \<Rightarrow> real" where
  "sigmoid x = 1 / (1 + exp (- x))"

definition math_ops_tanh :: "tensor \<Rightarrow> tensor" where
  "math_ops_tanh = tensor_map tanh"

definition math_ops_sigmoid :: "tensor \<Rightarrow> tensor" where
  "math_ops_sigmoid = tensor_map sigmoid"

definition maximum :: "tensor \<Rightarrow> real \<Rightarrow> tensor" where
  "maximum A y = tensor_map (\<lambda>x. max x y) A"

definition minimum :: "tensor \<Rightarrow> real \<Rightarrow> tensor" where
  "minimum A y = tensor_map (\<lambda>x. min x y) A"

definition add_scalar :: "tensor \<Rightarrow> real \<Rightarrow> tensor" where
  "add_scalar A y = tensor_map (\<lambda>x. x + y) A"

definition div_scalar :: "tensor \<Rightarrow> real \<Rightarrow> tensor" where
  "div_scalar A y = tensor_map (\<lambda>x. x / y) A"

definition scalar_sub :: "real \<Rightarrow> tensor \<Rightarrow> tensor" where
  "scalar_sub y A = tensor_map (\<lambda>x. y - x) A"

section \<open>The nonlinearity selector\<close>

text \<open>\<^verbatim>\<open>gen_non_linearity(A, non_linearity)\<close>, branch by branch.\<close>

definition gen_non_linearity :: "tensor \<Rightarrow> string \<Rightarrow> tensor" where
  "gen_non_linearity A non_linearity =
     (if non_linearity = ''tanh'' then math_ops_tanh A
      else if non_linearity = ''sigmoid'' then math_ops_sigmoid A
      else if non_linearity = ''relu'' then maximum A 0
      else if non_linearity = ''quantTanh'' then maximum (minimum A 1) (- 1)
      else if non_linearity = ''quantSigm'' then
        (let A = div_scalar (add_scalar A 1) 2 in maximum (minimum A 1) 0)
      else math_ops_tanh A)"

text \<open>The same selector on one entry: what each branch computes per element.\<close>

definition non_linearity_fn :: "string \<Rightarrow> real \<Rightarrow> real" where
  "non_linearity_fn non_linearity x =
     (if non_linearity = ''tanh'' then tanh x
      else if non_linearity = ''sigmoid'' then sigmoid x
      else if non_linearity = ''relu'' then max x 0
      else if non_linearity = ''quantTanh'' then max (min x 1) (- 1)
      else if non_linearity = ''quantSigm'' then max (min ((x + 1) / 2) 1) 0
      else tanh x)"

text \<open>\<open>clip(x, lo, hi)\<close> as the specification uses it: \<open>x\<close> limited to \<open>[lo, hi]\<close>,
  that is \<open>min(max(x, lo), hi)\<close>.\<close>

definition clip :: "real \<Rightarrow> real \<Rightarrow> real \<Rightarrow> real" where
  "clip x lo hi = min (max x lo) hi"

section \<open>The assign operations of the EMI wrappers\<close>

text \<open>
  \<^verbatim>\<open>addBaseAssignOps(self, initVarList)\<close> of \<^verbatim>\<open>EMI_GRU\<close>, \<^verbatim>\<open>EMI_FastRNN\<close> and
  \<^verbatim>\<open>EMI_FastGRNN\<close>. The methods read the name \<^verbatim>\<open>graph\<close>, which is neither a
  parameter nor a local nor a name the module binds: what it is bound to when the
  method runs, if anything, is the argument \<open>graph\<close> of the model (\<open>None\<close>: unbound,
  the read raises \<open>NameError\<close>). A graph maps tensor names to tensors, and
  \<^verbatim>\<open>tf.assign(ref, value)\<close> builds an operation from the graph's tensor and the new
  value. The graph's tensors, \<^verbatim>\<open>W_\<close>, \<^verbatim>\<open>alpha_\<close>, ... in the source, are written
  \<open>W_ref\<close>, \<open>alpha_ref\<close>, ... here. Of the attributes of a wrapper the methods touch
  \<^verbatim>\<open>assignOps\<close>, and \<^verbatim>\<open>wRank\<close> and \<^verbatim>\<open>uRank\<close> where the class has them.
\<close>

type_synonym tf_graph = "string \<rightharpoonup> tensor"

datatype assign_op = Assign tensor tensor

record EMI_RNN =
  assignOps :: "assign_op list"

record EMI_FastCell = EMI_RNN +
  wRank :: "nat option"
  uRank :: "nat option"

definition graph_get_tensor_by_name :: "tf_graph option \<Rightarrow> string \<Rightarrow> error + tensor" where
  "graph_get_tensor_by_name graph nm =
     (case graph of
        None \<Rightarrow> Inl NameError
      | Some g \<Rightarrow> (case g nm of None \<Rightarrow> Inl KeyError | Some t \<Rightarrow> Inr t))"

text \<open>\<^verbatim>\<open>xs[i]\<close> for an index that is not negative.\<close>

definition py_index :: "'a list \<Rightarrow> nat \<Rightarrow> error + 'a" where
  "py_index xs i = (if i < length xs then Inr (xs ! i) else Inl IndexError)"

definition extend_assignOps :: "'a EMI_RNN_scheme \<Rightarrow> assign_op list \<Rightarrow> 'a EMI_RNN_scheme" where
  "extend_assignOps self ops = self\<lparr>assignOps := assignOps self @ ops\<rparr>"

text \<open>\<^verbatim>\<open>EMI_GRU.addBaseAssignOps\<close>.\<close>

definition EMI_GRU_addBaseAssignOps ::
  "EMI_RNN \<Rightarrow> tf_graph option \<Rightarrow> tensor list option \<Rightarrow> error + EMI_RNN" where
  "EMI_GRU_addBaseAssignOps self graph initVarList =
     (case initVarList of
        None \<Rightarrow> Inl AssertionError
      | Some xs \<Rightarrow>
          if length xs \<noteq> 2 then Inl AssertionError
          else
            ebind (graph_get_tensor_by_name graph ''rnn/EMI-GRU-Cell/gates/kernel:0'') (\<lambda>kernel1_ref.
            ebind (graph_get_tensor_by_name graph ''rnn/EMI-GRU-Cell/gates/bias:0'') (\<lambda>bias1_ref.
            ebind (graph_get_tensor_by_name graph ''rnn/EMI-GRU-Cell/candidate/kernel:0'') (\<lambda>kernel2_ref.
            ebind (graph_get_tensor_by_name graph ''rnn/EMI-GRU-Cell/candidate/bias:0'') (\<lambda>bias2_ref.
            ebind (py_index xs 0) (\<lambda>kernel1.
            ebind (py_index xs 1) (\<lambda>bias1.
            ebind (py_index xs 2) (\<lambda>kernel2.
            ebind (py_index xs 3) (\<lambda>bias2.
              (let kernel1_op = Assign kernel1_ref kernel1;
                   bias1_op = Assign bias1_ref bias1;
                   kernel2_op = Assign kernel2_ref kernel2;
                   bias2_op = Assign bias2_ref bias2
               in Inr (extend_assignOps self
                         [kernel1_op, bias1_op, kernel2_op, bias2_op])))))))))))"

text \<open>
  \<^verbatim>\<open>EMI_FastRNN.addBaseAssignOps\<close>. The two \<^verbatim>\<open>if\<close> statements return the wrapper
  and the running \<^verbatim>\<open>index\<close>.
\<close>

definition EMI_FastRNN_addBaseAssignOps ::
  "EMI_FastCell \<Rightarrow> tf_graph option \<Rightarrow> tensor list option \<Rightarrow> error + EMI_FastCell" where
  "EMI_FastRNN_addBaseAssignOps self graph initVarList =
     (case initVarList of
        None \<Rightarrow> Inl AssertionError
      | Some xs \<Rightarrow>
          (let index = 0 in
           ebind
             (case wRank self of
                None \<Rightarrow>
                  ebind (graph_get_tensor_by_name graph
                           ''rnn/fast_rnn_cell/EMI-FastRNN-Cell/FastRNNcell/W:0'') (\<lambda>W_ref.
                  ebind (py_index xs 0) (\<lambda>W.
                    Inr (extend_assignOps self [Assign W_ref W], index + 1)))
              | Some _ \<Rightarrow>
                  ebind (graph_get_tensor_by_name graph
                           ''rnn/fast_rnn_cell/EMI-FastRNN-Cell/FastRNNcell/W1:0'') (\<lambda>W1_ref.
                  ebind (graph_get_tensor_by_name graph
                           ''rnn/fast_rnn_cell/EMI-FastRNN-Cell/FastRNNcell/W2:0'') (\<lambda>W2_ref.
                  ebind (py_index xs 0) (\<lambda>W1.
                  ebind (py_index xs 1) (\<lambda>W2.
                    Inr (extend_assignOps self [Assign W1_ref W1, Assign W2_ref W2], index + 2))))))
             (\<lambda>(self, index).
           ebind
             (case uRank self of
                None \<Rightarrow>
                  ebind (graph_get_tensor_by_name graph
                           ''rnn/fast_rnn_cell/EMI-FastRNN-Cell/FastRNNcell/U:0'') (\<lambda>U_ref.
                  ebind (py_index xs index) (\<lambda>U.
                    Inr (extend_assignOps self [Assign U_ref U], index + 1)))
              | Some _ \<Rightarrow>
                  ebind (graph_get_tensor_by_name graph
                           ''rnn/fast_rnn_cell/EMI-FastRNN-Cell/FastRNNcell/U1:0'') (\<lambda>U1_ref.
                  ebind (graph_get_tensor_by_name graph
                           ''rnn/fast_rnn_cell/EMI-FastRNN-Cell/FastRNNcell/U2:0'') (\<lambda>U2_ref.
                  ebind (py_index xs index) (\<lambda>U1.
                  ebind (py_index xs (index + 1)) (\<lambda>U2.
                    Inr (extend_assignOps self [Assign U1_ref U1, Assign U2_ref U2], index + 2))))))
             (\<lambda>(self, index).
           ebind (graph_get_tensor_by_name graph
                    ''rnn/fast_rnn_cell/EMI-FastRNN-Cell/FastRNNcell/alpha:0'') (\<lambda>alpha_ref.
           ebind (graph_get_tensor_by_name graph
                    ''rnn/fast_rnn_cell/EMI-FastRNN-Cell/FastRNNcell/beta:0'') (\<lambda>beta_ref.
           ebind (graph_get_tensor_by_name graph
                    ''rnn/fast_rnn_cell/EMI-FastRNN-Cell/FastRNNcell/B_h:0'') (\<lambda>bias_ref.
           ebind (py_index xs index) (\<lambda>alpha.
           ebind (py_index xs (index + 1)) (\<lambda>beta.
           ebind (py_index xs (index + 2)) (\<lambda>bias.
             Inr (extend_assignOps self
                    [Assign alpha_ref alpha, Assign beta_ref beta, Assign bias_ref bias])))))))))))"

text \<open>\<^verbatim>\<open>EMI_FastGRNN.addBaseAssignOps\<close>.\<close>

definition EMI_FastGRNN_addBaseAssignOps ::
  "EMI_FastCell \<Rightarrow> tf_graph option \<Rightarrow> tensor list option \<Rightarrow> error + EMI_FastCell" where
  "EMI_FastGRNN_addBaseAssignOps self graph initVarList =
     (case initVarList of
        None \<Rightarrow> Inl AssertionError
      | Some xs \<Rightarrow>
          (let index = 0 in
           ebind
             (case wRank self of
                None \<Rightarrow>
                  ebind (graph_get_tensor_by_name graph
                           ''rnn/fast_grnn_cell/EMI-FastGRNN-Cell/FastGRNNcell/W:0'') (\<lambda>W_ref.
                  ebind (py_index xs 0) (\<lambda>W.
                    Inr (extend_assignOps self [Assign W_ref W], index + 1)))
              | Some _ \<Rightarrow>
                  ebind (graph_get_tensor_by_name graph
                           ''rnn/fast_grnn_cell/EMI-FastGRNN-Cell/FastGRNNcell/W1:0'') (\<lambda>W1_ref.
                  ebind (graph_get_tensor_by_name graph
                           ''rnn/fast_grnn_cell/EMI-FastGRNN-Cell/FastGRNNcell/W2:0'') (\<lambda>W2_ref.
                  ebind (py_index xs 0) (\<lambda>W1.
                  ebind (py_index xs 1) (\<lambda>W2.
                    Inr (extend_assignOps self [Assign W1_ref W1, Assign W2_ref W2], index + 2))))))
             (\<lambda>(self, index).
           ebind
             (case uRank self of
                None \<Rightarrow>
                  ebind (graph_get_tensor_by_name graph
                           ''rnn/fast_grnn_cell/EMI-FastGRNN-Cell/FastGRNNcell/U:0'') (\<lambda>U_ref.
                  ebind (py_index xs index) (\<lambda>U.
                    Inr (extend_assignOps self [Assign U_ref U], index + 1)))
              | Some _ \<Rightarrow>
                  ebind (graph_get_tensor_by_name graph
                           ''rnn/fast_grnn_cell/EMI-FastGRNN-Cell/FastGRNNcell/U1:0'') (\<lambda>U1_ref.
                  ebind (graph_get_tensor_by_name graph
                           ''rnn/fast_grnn_cell/EMI-FastGRNN-Cell/FastGRNNcell/U2:0'') (\<lambda>U2_ref.
                  ebind (py_index xs index) (\<lambda>U1.
                  ebind (py_index xs (index + 1)) (\<lambda>U2.
                    Inr (extend_assignOps self [Assign U1_ref U1, Assign U2_ref U2], index + 2))))))
             (\<lambda>(self, index).
           ebind (graph_get_tensor_by_name graph
                    ''rnn/fast_grnn_cell/EMI-FastGRNN-Cell/FastGRNNcell/zeta:0'') (\<lambda>zeta_ref.
           ebind (graph_get_tensor_by_name graph
                    ''rnn/fast_grnn_cell/EMI-FastGRNN-Cell/FastGRNNcell/nu:0'') (\<lambda>nu_ref.
           ebind (graph_get_tensor_by_name graph
                    ''rnn/fast_grnn_cell/EMI-FastGRNN-Cell/FastGRNNcell/B_g:0'') (\<lambda>gate_bias_ref.
           ebind (graph_get_tensor_by_name graph
                    ''rnn/fast_grnn_cell/EMI-FastGRNN-Cell/FastGRNNcell/B_h:0'') (\<lambda>update_bias_ref.
           ebind (py_index xs index) (\<lambda>zeta.
           ebind (py_index xs (index + 1)) (\<lambda>nu.
           ebind (py_index xs (index + 2)) (\<lambda>gate_bias.
           ebind (py_index xs (index + 3)) (\<lambda>update_bias.
             Inr (extend_assignOps self
                    [Assign zeta_ref zeta, Assign nu_ref nu, Assign gate_bias_ref gate_bias,
                     Assign update_bias_ref update_bias])))))))))))))"

section \<open>Variables\<close>

text \<open>
  \<^verbatim>\<open>vs.get_variable(name, shape, initializer)\<close> yields the trainable variable of
  that name under the current variable scope. The tensor library owns the variable:
  it has exactly the requested shape, and its current entries (the initial draw, or
  what training or a restore left there) are supplied from outside, by the full name
  of the variable.
\<close>

datatype initializer =
  random_normal_initializer real real | constant_initializer real

record variable =
  var_name :: string
  var_init :: initializer
  var_tensor :: tensor

type_synonym var_values = "string \<Rightarrow> nat \<Rightarrow> nat \<Rightarrow> real"

text \<open>The current tensor of the variable \<open>nm\<close> under \<open>scope\<close>, of shape \<open>[r, c]\<close>.\<close>

definition variable_tensor :: "var_values \<Rightarrow> string \<Rightarrow> string \<Rightarrow> nat \<Rightarrow> nat \<Rightarrow> tensor" where
  "variable_tensor vals scope nm r c = tab r c (vals (scope @ ''/'' @ nm))"

definition get_variable ::
  "var_values \<Rightarrow> string \<Rightarrow> string \<Rightarrow> nat \<times> nat \<Rightarrow> initializer \<Rightarrow> variable" where
  "get_variable vals scope nm shp ini =
     \<lparr>var_name = scope @ ''/'' @ nm, var_init = ini,
      var_tensor = variable_tensor vals scope nm (fst shp) (snd shp)\<rparr>"

section \<open>The cells\<close>

text \<open>
  The fields that both constructors set, and \<open>attrs\<close>: the instance attributes
  (\<^verbatim>\<open>self.W\<close>, \<^verbatim>\<open>self.zeta\<close>, ...) that \<^verbatim>\<open>call\<close> assigns and
  \<^verbatim>\<open>getVars\<close> reads, by attribute name. The hidden size and the ranks are
  dimensions of tensors, hence natural numbers; a rank that is not set is \<open>None\<close>.
  A method returns its result together with the cell as the method left it, or the
  error alone when it raises.
\<close>

record RNNCell =
  hidden_size :: nat
  update_non_linearity :: string
  num_weight_matrices :: "nat list"
  wRank :: "nat option"
  uRank :: "nat option"
  name :: string
  attrs :: "string \<rightharpoonup> variable"

record FastGRNNCell = RNNCell +
  gate_non_linearity :: string
  zetaInit :: real
  nuInit :: real

record FastRNNCell = RNNCell +
  alphaInit :: real
  betaInit :: real

definition setattr :: "('a RNNCell_scheme) \<Rightarrow> string \<Rightarrow> variable \<Rightarrow> 'a RNNCell_scheme" where
  "setattr self a v = self\<lparr>attrs := (attrs self)(a \<mapsto> v)\<rparr>"

definition getattr :: "('a RNNCell_scheme) \<Rightarrow> string \<Rightarrow> error + variable" where
  "getattr self a = (case attrs self a of None \<Rightarrow> Inl AttributeError | Some v \<Rightarrow> Inr v)"

subsection \<open>FastGRNNCell\<close>

text \<open>\<^verbatim>\<open>FastGRNNCell.__init__\<close>.\<close>

definition FastGRNNCell_init ::
  "nat \<Rightarrow> string \<Rightarrow> string \<Rightarrow> nat option \<Rightarrow> nat option \<Rightarrow> real \<Rightarrow> real \<Rightarrow> string
   \<Rightarrow> FastGRNNCell" where
  "FastGRNNCell_init hidden gate_nl update_nl wR uR zetaI nuI nm =
     (let nwm = [1, 1];
          nwm = (if wR \<noteq> None then nwm[0 := nwm ! 0 + 1] else nwm);
          nwm = (if uR \<noteq> None then nwm[1 := nwm ! 1 + 1] else nwm)
      in \<lparr>hidden_size = hidden, update_non_linearity = update_nl,
          num_weight_matrices = nwm, wRank = wR, uRank = uR, name = nm,
          attrs = Map.empty,
          gate_non_linearity = gate_nl, zetaInit = zetaI, nuInit = nuI\<rparr>)"


text \<open>The variable scope that \<^verbatim>\<open>FastGRNNCell.call\<close> opens.\<close>

definition FastGRNNCell_scope :: "FastGRNNCell \<Rightarrow> string" where
  "FastGRNNCell_scope self = name self @ ''/FastGRNNcell''"

text \<open>The input projection of \<^verbatim>\<open>FastGRNNCell.call\<close> (its first \<^verbatim>\<open>if\<close>).\<close>

definition FastGRNNCell_wComp ::
  "FastGRNNCell \<Rightarrow> var_values \<Rightarrow> tensor \<Rightarrow> error + (tensor \<times> FastGRNNCell)" where
  "FastGRNNCell_wComp self vals inputs =
     (case wRank self of
        None \<Rightarrow>
          (let W = get_variable vals (FastGRNNCell_scope self) ''W''
                     (ncols inputs, hidden_size self) (random_normal_initializer 0 0.1);
               self = setattr self ''W'' W
           in ebind (matmul inputs (var_tensor W)) (\<lambda>wComp. Inr (wComp, self)))
      | Some r \<Rightarrow>
          (let W1 = get_variable vals (FastGRNNCell_scope self) ''W1''
                      (ncols inputs, r) (random_normal_initializer 0 0.1);
               self = setattr self ''W1'' W1;
               W2 = get_variable vals (FastGRNNCell_scope self) ''W2''
                      (r, hidden_size self) (random_normal_initializer 0 0.1);
               self = setattr self ''W2'' W2
           in ebind (matmul inputs (var_tensor W1)) (\<lambda>t.
              ebind (matmul t (var_tensor W2)) (\<lambda>wComp. Inr (wComp, self)))))"

text \<open>The recurrent projection (its second \<^verbatim>\<open>if\<close>).\<close>

definition FastGRNNCell_uComp ::
  "FastGRNNCell \<Rightarrow> var_values \<Rightarrow> tensor \<Rightarrow> error + (tensor \<times> FastGRNNCell)" where
  "FastGRNNCell_uComp self vals state =
     (case uRank self of
        None \<Rightarrow>
          (let U = get_variable vals (FastGRNNCell_scope self) ''U''
                     (hidden_size self, hidden_size self) (random_normal_initializer 0 0.1);
               self = setattr self ''U'' U
           in ebind (matmul state (var_tensor U)) (\<lambda>uComp. Inr (uComp, self)))
      | Some r \<Rightarrow>
          (let U1 = get_variable vals (FastGRNNCell_scope self) ''U1''
                      (hidden_size self, r) (random_normal_initializer 0 0.1);
               self = setattr self ''U1'' U1;
               U2 = get_variable vals (FastGRNNCell_scope self) ''U2''
                      (r, hidden_size self) (random_normal_initializer 0 0.1);
               self = setattr self ''U2'' U2
           in ebind (matmul state (var_tensor U1)) (\<lambda>t.
              ebind (matmul t (var_tensor U2)) (\<lambda>uComp. Inr (uComp, self)))))"

text \<open>
  The rest of \<^verbatim>\<open>FastGRNNCell.call\<close>, from the scalars \<open>zeta\<close> and \<open>nu\<close> to the
  \<^verbatim>\<open>return\<close>: the gate \<open>z\<close>, the candidate \<open>c\<close> and the new state, which is
  returned twice.
\<close>

definition FastGRNNCell_update ::
  "FastGRNNCell \<Rightarrow> var_values \<Rightarrow> tensor \<Rightarrow> tensor \<Rightarrow> tensor
   \<Rightarrow> error + ((tensor \<times> tensor) \<times> FastGRNNCell)" where
  "FastGRNNCell_update self vals wComp uComp state =
     (let zeta = get_variable vals (FastGRNNCell_scope self) ''zeta'' (1, 1)
                   (constant_initializer (zetaInit self));
          self = setattr self ''zeta'' zeta;
          nu = get_variable vals (FastGRNNCell_scope self) ''nu'' (1, 1)
                 (constant_initializer (nuInit self));
          self = setattr self ''nu'' nu
      in
      ebind (tensor_add wComp uComp) (\<lambda>pre_comp.
        (let bias_gate = get_variable vals (FastGRNNCell_scope self) ''B_g''
                           (1, hidden_size self) (constant_initializer 1);
             self = setattr self ''bias_gate'' bias_gate
         in
         ebind (tensor_add pre_comp (var_tensor bias_gate)) (\<lambda>zin.
           (let z = gen_non_linearity zin (gate_non_linearity self);
                bias_update = get_variable vals (FastGRNNCell_scope self) ''B_h''
                                (1, hidden_size self) (constant_initializer 1);
                self = setattr self ''bias_update'' bias_update
            in
            ebind (tensor_add pre_comp (var_tensor bias_update)) (\<lambda>cin.
              (let c = gen_non_linearity cin (update_non_linearity self) in
               ebind (tensor_mul z state) (\<lambda>zs.
               ebind (tensor_mul (math_ops_sigmoid (var_tensor zeta)) (scalar_sub 1 z)) (\<lambda>t1.
               ebind (tensor_add t1 (math_ops_sigmoid (var_tensor nu))) (\<lambda>t2.
               ebind (tensor_mul t2 c) (\<lambda>t3.
               ebind (tensor_add zs t3) (\<lambda>new_h.
                 Inr ((new_h, new_h), self)))))))))))))"

text \<open>
  \<^verbatim>\<open>FastGRNNCell.call(inputs, state)\<close>: the three parts in sequence. The cell is
  returned with the attributes the call assigned.
\<close>

definition FastGRNNCell_call ::
  "FastGRNNCell \<Rightarrow> var_values \<Rightarrow> tensor \<Rightarrow> tensor
   \<Rightarrow> error + ((tensor \<times> tensor) \<times> FastGRNNCell)" where
  "FastGRNNCell_call self vals inputs state =
     ebind (FastGRNNCell_wComp self vals inputs) (\<lambda>(wComp, self).
     ebind (FastGRNNCell_uComp self vals state) (\<lambda>(uComp, self).
       FastGRNNCell_update self vals wComp uComp state))"

text \<open>\<^verbatim>\<open>FastGRNNCell.getVars\<close>.\<close>

definition FastGRNNCell_getVars :: "FastGRNNCell \<Rightarrow> error + variable list" where
  "FastGRNNCell_getVars self =
     ebind (if num_weight_matrices self ! 0 = 1
            then ebind (getattr self ''W'') (\<lambda>W. Inr ([] @ [W]))
            else ebind (getattr self ''W1'') (\<lambda>W1.
                 ebind (getattr self ''W2'') (\<lambda>W2. Inr ([] @ [W1, W2])))) (\<lambda>Vars.
     ebind (if num_weight_matrices self ! 1 = 1
            then ebind (getattr self ''U'') (\<lambda>U. Inr (Vars @ [U]))
            else ebind (getattr self ''U1'') (\<lambda>U1.
                 ebind (getattr self ''U2'') (\<lambda>U2. Inr (Vars @ [U1, U2])))) (\<lambda>Vars.
     ebind (getattr self ''bias_gate'') (\<lambda>bias_gate.
     ebind (getattr self ''bias_update'') (\<lambda>bias_update.
     ebind (getattr self ''zeta'') (\<lambda>zeta.
     ebind (getattr self ''nu'') (\<lambda>nu.
       Inr ((Vars @ [bias_gate, bias_update]) @ [zeta, nu])))))))"

subsection \<open>FastRNNCell\<close>

text \<open>\<^verbatim>\<open>FastRNNCell.__init__\<close>.\<close>

definition FastRNNCell_init ::
  "nat \<Rightarrow> string \<Rightarrow> nat option \<Rightarrow> nat option \<Rightarrow> real \<Rightarrow> real \<Rightarrow> string \<Rightarrow> FastRNNCell" where
  "FastRNNCell_init hidden update_nl wR uR alphaI betaI nm =
     (let nwm = [1, 1];
          nwm = (if wR \<noteq> None then nwm[0 := nwm ! 0 + 1] else nwm);
          nwm = (if uR \<noteq> None then nwm[1 := nwm ! 1 + 1] else nwm)
      in \<lparr>hidden_size = hidden, update_non_linearity = update_nl,
          num_weight_matrices = nwm, wRank = wR, uRank = uR, name = nm,
          attrs = Map.empty,
          alphaInit = alphaI, betaInit = betaI\<rparr>)"


definition FastRNNCell_scope :: "FastRNNCell \<Rightarrow> string" where
  "FastRNNCell_scope self = name self @ ''/FastRNNcell''"

definition FastRNNCell_wComp ::
  "FastRNNCell \<Rightarrow> var_values \<Rightarrow> tensor \<Rightarrow> error + (tensor \<times> FastRNNCell)" where
  "FastRNNCell_wComp self vals inputs =
     (case wRank self of
        None \<Rightarrow>
          (let W = get_variable vals (FastRNNCell_scope self) ''W''
                     (ncols inputs, hidden_size self) (random_normal_initializer 0 0.1);
               self = setattr self ''W'' W
           in ebind (matmul inputs (var_tensor W)) (\<lambda>wComp. Inr (wComp, self)))
      | Some r \<Rightarrow>
          (let W1 = get_variable vals (FastRNNCell_scope self) ''W1''
                      (ncols inputs, r) (random_normal_initializer 0 0.1);
               self = setattr self ''W1'' W1;
               W2 = get_variable vals (FastRNNCell_scope self) ''W2''
                      (r, hidden_size self) (random_normal_initializer 0 0.1);
               self = setattr self ''W2'' W2
           in ebind (matmul inputs (var_tensor W1)) (\<lambda>t.
              ebind (matmul t (var_tensor W2)) (\<lambda>wComp. Inr (wComp, self)))))"

definition FastRNNCell_uComp ::
  "FastRNNCell \<Rightarrow> var_values \<Rightarrow> tensor \<Rightarrow> error + (tensor \<times> FastRNNCell)" where
  "FastRNNCell_uComp self vals state =
     (case uRank self of
        None \<Rightarrow>
          (let U = get_variable vals (FastRNNCell_scope self) ''U''
                     (hidden_size self, hidden_size self) (random_normal_initializer 0 0.1);
               self = setattr self ''U'' U
           in ebind (matmul state (var_tensor U)) (\<lambda>uComp. Inr (uComp, self)))
      | Some r \<Rightarrow>
          (let U1 = get_variable vals (FastRNNCell_scope self) ''U1''
                      (hidden_size self, r) (random_normal_initializer 0 0.1);
               self = setattr self ''U1'' U1;
               U2 = get_variable vals (FastRNNCell_scope self) ''U2''
                      (r, hidden_size self) (random_normal_initializer 0 0.1);
               self = setattr self ''U2'' U2
           in ebind (matmul state (var_tensor U1)) (\<lambda>t.
              ebind (matmul t (var_tensor U2)) (\<lambda>uComp. Inr (uComp, self)))))"

text \<open>
  The rest of \<^verbatim>\<open>FastRNNCell.call\<close>, from the scalars \<open>alpha\<close> and \<open>beta\<close> to the
  \<^verbatim>\<open>return\<close>.
\<close>

definition FastRNNCell_update ::
  "FastRNNCell \<Rightarrow> var_values \<Rightarrow> tensor \<Rightarrow> tensor \<Rightarrow> tensor
   \<Rightarrow> error + ((tensor \<times> tensor) \<times> FastRNNCell)" where
  "FastRNNCell_update self vals wComp uComp state =
     (let alpha = get_variable vals (FastRNNCell_scope self) ''alpha'' (1, 1)
                    (constant_initializer (alphaInit self));
          self = setattr self ''alpha'' alpha;
          beta = get_variable vals (FastRNNCell_scope self) ''beta'' (1, 1)
                   (constant_initializer (betaInit self));
          self = setattr self ''beta'' beta
      in
      ebind (tensor_add wComp uComp) (\<lambda>pre_comp.
        (let bias_update = get_variable vals (FastRNNCell_scope self) ''B_h''
                             (1, hidden_size self) (constant_initializer 1);
             self = setattr self ''bias_update'' bias_update
         in
         ebind (tensor_add pre_comp (var_tensor bias_update)) (\<lambda>cin.
           (let c = gen_non_linearity cin (update_non_linearity self) in
            ebind (tensor_mul (math_ops_sigmoid (var_tensor beta)) state) (\<lambda>t1.
            ebind (tensor_mul (math_ops_sigmoid (var_tensor alpha)) c) (\<lambda>t2.
            ebind (tensor_add t1 t2) (\<lambda>new_h.
              Inr ((new_h, new_h), self)))))))))"

text \<open>\<^verbatim>\<open>FastRNNCell.call(inputs, state)\<close>: the three parts in sequence.\<close>

definition FastRNNCell_call ::
  "FastRNNCell \<Rightarrow> var_values \<Rightarrow> tensor \<Rightarrow> tensor
   \<Rightarrow> error + ((tensor \<times> tensor) \<times> FastRNNCell)" where
  "FastRNNCell_call self vals inputs state =
     ebind (FastRNNCell_wComp self vals inputs) (\<lambda>(wComp, self).
     ebind (FastRNNCell_uComp self vals state) (\<lambda>(uComp, self).
       FastRNNCell_update self vals wComp uComp state))"

text \<open>\<^verbatim>\<open>FastRNNCell.getVars\<close>.\<close>

definition FastRNNCell_getVars :: "FastRNNCell \<Rightarrow> error + variable list" where
  "FastRNNCell_getVars self =
     ebind (if num_weight_matrices self ! 0 = 1
            then ebind (getattr self ''W'') (\<lambda>W. Inr ([] @ [W]))
            else ebind (getattr self ''W1'') (\<lambda>W1.
                 ebind (getattr self ''W2'') (\<lambda>W2. Inr ([] @ [W1, W2])))) (\<lambda>Vars.
     ebind (if num_weight_matrices self ! 1 = 1
            then ebind (getattr self ''U'') (\<lambda>U. Inr (Vars @ [U]))
            else ebind (getattr self ''U1'') (\<lambda>U1.
                 ebind (getattr self ''U2'') (\<lambda>U2. Inr (Vars @ [U1, U2])))) (\<lambda>Vars.
     ebind (getattr self ''bias_update'') (\<lambda>bias_update.
     ebind (getattr self ''alpha'') (\<lambda>alpha.
     ebind (getattr self ''beta'') (\<lambda>beta.
       Inr ((Vars @ [bias_update]) @ [alpha, beta]))))))"

section \<open>The update rules as the specification words them\<close>

text \<open>
  One entry of the new state of a FastGRNN step, from the entries of \<open>wComp\<close>,
  \<open>uComp\<close>, the two biases, the two scalars and the previous state at the same
  position.
\<close>

definition spec_FastGRNN_newState ::
  "(real \<Rightarrow> real) \<Rightarrow> (real \<Rightarrow> real) \<Rightarrow> real \<Rightarrow> real \<Rightarrow> real \<Rightarrow> real \<Rightarrow> real \<Rightarrow> real \<Rightarrow> real
   \<Rightarrow> real" where
  "spec_FastGRNN_newState gateNonlinearity updateNonlinearity wComp uComp biasGate biasUpdate
     zeta nu prevState =
     (let preComp = wComp + uComp;
          z = gateNonlinearity (preComp + biasGate);
          c = updateNonlinearity (preComp + biasUpdate)
      in z * prevState + (sigmoid zeta * (1 - z) + sigmoid nu) * c)"

text \<open>The same for a FastRNN step.\<close>

definition spec_FastRNN_newState ::
  "(real \<Rightarrow> real) \<Rightarrow> real \<Rightarrow> real \<Rightarrow> real \<Rightarrow> real \<Rightarrow> real \<Rightarrow> real \<Rightarrow> real" where
  "spec_FastRNN_newState updateNonlinearity wComp uComp biasUpdate alpha beta prevState =
     (let preComp = wComp + uComp;
          candidate = updateNonlinearity (preComp + biasUpdate);
          gate = sigmoid beta;
          updateWeight = sigmoid alpha
      in gate * prevState + updateWeight * candidate)"

section \<open>Basic facts about tensors\<close>

lemma ebind_Inr [simp]: "ebind (Inr v) f = f v"
  by (simp add: ebind_def)

lemma ebind_Inl [simp]: "ebind (Inl e) f = Inl e"
  by (simp add: ebind_def)

lemma ebind_eq_Inr: "ebind m f = Inr y \<longleftrightarrow> (\<exists>x. m = Inr x \<and> f x = Inr y)"
  by (cases m) simp_all


lemma nrows_tab [simp]: "nrows (tab r c f) = r"
  by (simp add: tab_def)

lemma ncols_tab [simp]: "ncols (tab r c f) = c"
  by (simp add: tab_def)

lemma el_tab [simp]: "i < r \<Longrightarrow> j < c \<Longrightarrow> el (tab r c f) i j = f i j"
  by (simp add: tab_def el_def)

lemma wf_tab: "wf_tensor (tab r c f)"
  by (simp add: wf_tensor_def tab_def list_all_iff)

lemma tab_cong:
  "r = r' \<Longrightarrow> c = c' \<Longrightarrow> (\<And>i j. i < r' \<Longrightarrow> j < c' \<Longrightarrow> f i j = g i j)
   \<Longrightarrow> tab r c f = tab r' c' g"
  by (simp add: tab_def)

lemma tab_eq_iff: "tab r c f = tab r c g \<longleftrightarrow> (\<forall>i<r. \<forall>j<c. f i j = g i j)"
  by (auto simp: tab_def)

lemma nrows_variable_tensor [simp]: "nrows (variable_tensor vals scope nm r c) = r"
  by (simp add: variable_tensor_def)

lemma ncols_variable_tensor [simp]: "ncols (variable_tensor vals scope nm r c) = c"
  by (simp add: variable_tensor_def)

lemma el_variable_tensor [simp]:
  "i < r \<Longrightarrow> j < c \<Longrightarrow> el (variable_tensor vals scope nm r c) i j = vals (scope @ ''/'' @ nm) i j"
  by (simp add: variable_tensor_def)

lemma nrows_tensor_map [simp]: "nrows (tensor_map f t) = nrows t"
  by (simp add: tensor_map_def)

lemma ncols_tensor_map [simp]: "ncols (tensor_map f t) = ncols t"
  by (simp add: tensor_map_def)

lemma el_tensor_map [simp]:
  "i < nrows t \<Longrightarrow> j < ncols t \<Longrightarrow> el (tensor_map f t) i j = f (el t i j)"
  by (simp add: tensor_map_def)

lemma tensor_map_tensor_map: "tensor_map f (tensor_map g t) = tensor_map (\<lambda>x. f (g x)) t"
  by (simp add: tensor_map_def cong: tab_cong)

lemma matmul_tab:
  assumes "ncols a = r"
  shows "matmul a (tab r c f) = Inr (tab (nrows a) c (\<lambda>i j. \<Sum>k<r. el a i k * f k j))"
proof -
  have "tab (nrows a) c (\<lambda>i j. \<Sum>k<r. el a i k * el (tab r c f) k j) =
        tab (nrows a) c (\<lambda>i j. \<Sum>k<r. el a i k * f k j)"
    by (intro tab_cong sum.cong refl) simp
  with assms show ?thesis
    by (simp add: matmul_def)
qed

subsection \<open>Broadcasting\<close>

lemma bdim_same [simp]: "bdim n n = Some n"
  by (simp add: bdim_def)

lemma bdim_one_left [simp]: "bdim (Suc 0) n = Some n"
  by (simp add: bdim_def)

lemma bdim_one_right [simp]: "bdim n (Suc 0) = Some n"
  by (auto simp: bdim_def)

lemma bidx_one [simp]: "bidx (Suc 0) i = 0"
  by (simp add: bidx_def)

lemma bidx_less [simp]: "i < n \<Longrightarrow> bidx n i = i"
  by (simp add: bidx_def)

lemma broadcast_op_same:
  "nrows a = nrows b \<Longrightarrow> ncols a = ncols b \<Longrightarrow>
   broadcast_op f a b = Inr (tab (nrows b) (ncols b) (\<lambda>i j. f (el a i j) (el b i j)))"
  by (simp add: broadcast_op_def cong: tab_cong)

lemma broadcast_op_row:
  "nrows b = 1 \<Longrightarrow> ncols a = ncols b \<Longrightarrow>
   broadcast_op f a b = Inr (tab (nrows a) (ncols b) (\<lambda>i j. f (el a i j) (el b 0 j)))"
  by (simp add: broadcast_op_def cong: tab_cong)

lemma broadcast_op_scalar_left:
  "nrows a = 1 \<Longrightarrow> ncols a = 1 \<Longrightarrow>
   broadcast_op f a b = Inr (tab (nrows b) (ncols b) (\<lambda>i j. f (el a 0 0) (el b i j)))"
  by (simp add: broadcast_op_def cong: tab_cong)

lemma broadcast_op_scalar_right:
  "nrows b = 1 \<Longrightarrow> ncols b = 1 \<Longrightarrow>
   broadcast_op f a b = Inr (tab (nrows a) (ncols a) (\<lambda>i j. f (el a i j) (el b 0 0)))"
  by (simp add: broadcast_op_def cong: tab_cong)

subsection \<open>The selector, entry by entry\<close>

lemma non_linearity_fn_eq:
  "non_linearity_fn nl =
     (if nl = ''tanh'' then tanh
      else if nl = ''sigmoid'' then sigmoid
      else if nl = ''relu'' then (\<lambda>x. max x 0)
      else if nl = ''quantTanh'' then (\<lambda>x. max (min x 1) (- 1))
      else if nl = ''quantSigm'' then (\<lambda>x. max (min ((x + 1) / 2) 1) 0)
      else tanh)"
  by (rule ext) (simp add: non_linearity_fn_def)

lemma gen_non_linearity_map: "gen_non_linearity A nl = tensor_map (non_linearity_fn nl) A"
  by (simp add: gen_non_linearity_def non_linearity_fn_eq math_ops_tanh_def math_ops_sigmoid_def
      maximum_def minimum_def add_scalar_def div_scalar_def tensor_map_tensor_map Let_def)

lemmas broadcast_simps =
  tensor_add_def tensor_mul_def math_ops_sigmoid_def scalar_sub_def gen_non_linearity_map
  broadcast_op_same broadcast_op_row broadcast_op_scalar_left broadcast_op_scalar_right

section \<open>The parts of a step\<close>

lemma FastGRNNCell_init_simps [simp]:
  "hidden_size (FastGRNNCell_init h gate_nl update_nl wR uR zetaI nuI nm) = h"
  "gate_non_linearity (FastGRNNCell_init h gate_nl update_nl wR uR zetaI nuI nm) = gate_nl"
  "update_non_linearity (FastGRNNCell_init h gate_nl update_nl wR uR zetaI nuI nm) = update_nl"
  "wRank (FastGRNNCell_init h gate_nl update_nl wR uR zetaI nuI nm) = wR"
  "uRank (FastGRNNCell_init h gate_nl update_nl wR uR zetaI nuI nm) = uR"
  "name (FastGRNNCell_init h gate_nl update_nl wR uR zetaI nuI nm) = nm"
  "attrs (FastGRNNCell_init h gate_nl update_nl wR uR zetaI nuI nm) = Map.empty"
  "num_weight_matrices (FastGRNNCell_init h gate_nl update_nl wR uR zetaI nuI nm) =
     [if wR = None then 1 else 2, if uR = None then 1 else 2]"
  "FastGRNNCell_scope (FastGRNNCell_init h gate_nl update_nl wR uR zetaI nuI nm) =
     nm @ ''/FastGRNNcell''"
  by (auto simp: FastGRNNCell_init_def FastGRNNCell_scope_def Let_def)

lemma FastRNNCell_init_simps [simp]:
  "hidden_size (FastRNNCell_init h update_nl wR uR alphaI betaI nm) = h"
  "update_non_linearity (FastRNNCell_init h update_nl wR uR alphaI betaI nm) = update_nl"
  "wRank (FastRNNCell_init h update_nl wR uR alphaI betaI nm) = wR"
  "uRank (FastRNNCell_init h update_nl wR uR alphaI betaI nm) = uR"
  "name (FastRNNCell_init h update_nl wR uR alphaI betaI nm) = nm"
  "attrs (FastRNNCell_init h update_nl wR uR alphaI betaI nm) = Map.empty"
  "num_weight_matrices (FastRNNCell_init h update_nl wR uR alphaI betaI nm) =
     [if wR = None then 1 else 2, if uR = None then 1 else 2]"
  "FastRNNCell_scope (FastRNNCell_init h update_nl wR uR alphaI betaI nm) =
     nm @ ''/FastRNNcell''"
  by (auto simp: FastRNNCell_init_def FastRNNCell_scope_def Let_def)

lemma ex_attrs [simp]: "\<exists>A. s\<lparr>attrs := X\<rparr> = s\<lparr>attrs := A\<rparr>"
  by (rule exI [of _ X]) (rule refl)

lemma FastGRNNCell_wComp_ok:
  "\<exists>w A. FastGRNNCell_wComp self vals inputs = Inr (w, self\<lparr>attrs := A\<rparr>) \<and>
         nrows w = nrows inputs \<and> ncols w = hidden_size self"
  by (cases "wRank self")
     (auto simp: FastGRNNCell_wComp_def FastGRNNCell_scope_def get_variable_def setattr_def
        matmul_def Let_def)

lemma FastGRNNCell_uComp_ok:
  "ncols state = hidden_size self \<Longrightarrow>
   \<exists>u A. FastGRNNCell_uComp self vals state = Inr (u, self\<lparr>attrs := A\<rparr>) \<and>
         nrows u = nrows state \<and> ncols u = hidden_size self"
  by (cases "uRank self")
     (auto simp: FastGRNNCell_uComp_def FastGRNNCell_scope_def get_variable_def setattr_def
        matmul_def Let_def)

lemma FastRNNCell_wComp_ok:
  "\<exists>w A. FastRNNCell_wComp self vals inputs = Inr (w, self\<lparr>attrs := A\<rparr>) \<and>
         nrows w = nrows inputs \<and> ncols w = hidden_size self"
  by (cases "wRank self")
     (auto simp: FastRNNCell_wComp_def FastRNNCell_scope_def get_variable_def setattr_def
        matmul_def Let_def)

lemma FastRNNCell_uComp_ok:
  "ncols state = hidden_size self \<Longrightarrow>
   \<exists>u A. FastRNNCell_uComp self vals state = Inr (u, self\<lparr>attrs := A\<rparr>) \<and>
         nrows u = nrows state \<and> ncols u = hidden_size self"
  by (cases "uRank self")
     (auto simp: FastRNNCell_uComp_def FastRNNCell_scope_def get_variable_def setattr_def
        matmul_def Let_def)

lemma FastGRNNCell_update_ok:
  assumes "nrows wComp = nrows state" "ncols wComp = hidden_size self"
    and "nrows uComp = nrows state" "ncols uComp = hidden_size self"
    and "ncols state = hidden_size self"
  shows "\<exists>new_h A. FastGRNNCell_update self vals wComp uComp state
             = Inr ((new_h, new_h), self\<lparr>attrs := A\<rparr>) \<and>
      shape new_h = (nrows state, hidden_size self) \<and>
      (\<forall>i<nrows state. \<forall>j<hidden_size self.
         el new_h i j =
           spec_FastGRNN_newState
             (non_linearity_fn (gate_non_linearity self))
             (non_linearity_fn (update_non_linearity self))
             (el wComp i j) (el uComp i j)
             (vals (FastGRNNCell_scope self @ ''/B_g'') 0 j)
             (vals (FastGRNNCell_scope self @ ''/B_h'') 0 j)
             (vals (FastGRNNCell_scope self @ ''/zeta'') 0 0)
             (vals (FastGRNNCell_scope self @ ''/nu'') 0 0)
             (el state i j))"
  using assms
  by (simp add: FastGRNNCell_update_def Let_def get_variable_def setattr_def broadcast_simps
      FastGRNNCell_scope_def shape_def spec_FastGRNN_newState_def)

lemma FastRNNCell_update_ok:
  assumes "nrows wComp = nrows state" "ncols wComp = hidden_size self"
    and "nrows uComp = nrows state" "ncols uComp = hidden_size self"
    and "ncols state = hidden_size self"
  shows "\<exists>new_h A. FastRNNCell_update self vals wComp uComp state
             = Inr ((new_h, new_h), self\<lparr>attrs := A\<rparr>) \<and>
      shape new_h = (nrows state, hidden_size self) \<and> wf_tensor new_h \<and>
      (\<forall>i<nrows state. \<forall>j<hidden_size self.
         el new_h i j =
           spec_FastRNN_newState
             (non_linearity_fn (update_non_linearity self))
             (el wComp i j) (el uComp i j)
             (vals (FastRNNCell_scope self @ ''/B_h'') 0 j)
             (vals (FastRNNCell_scope self @ ''/alpha'') 0 0)
             (vals (FastRNNCell_scope self @ ''/beta'') 0 0)
             (el state i j))"
  using assms
  by (simp add: FastRNNCell_update_def Let_def get_variable_def setattr_def broadcast_simps
      FastRNNCell_scope_def shape_def spec_FastRNN_newState_def wf_tab)

subsection \<open>Two cells that compute the same step\<close>

lemma ebind_Inr_right [simp]: "ebind m Inr = m"
  by (cases m) simp_all


lemma FastGRNNCell_scope_attrs [simp]:
  "FastGRNNCell_scope (self\<lparr>attrs := X\<rparr>) = FastGRNNCell_scope self"
  by (simp add: FastGRNNCell_scope_def)










lemma FastRNNCell_scope_attrs [simp]:
  "FastRNNCell_scope (self\<lparr>attrs := X\<rparr>) = FastRNNCell_scope self"
  by (simp add: FastRNNCell_scope_def)










subsection \<open>A step returns, and what \<open>getVars\<close> reads afterwards\<close>

lemma FastGRNNCell_call_returns:
  assumes "nrows inputs = nrows state" and "ncols state = hidden_size self"
  shows "\<exists>new_h self'. FastGRNNCell_call self vals inputs state = Inr ((new_h, new_h), self')"
proof -
  obtain wComp A1
    where w: "FastGRNNCell_wComp self vals inputs = Inr (wComp, self\<lparr>attrs := A1\<rparr>)"
    and ws: "nrows wComp = nrows inputs" "ncols wComp = hidden_size self"
    using FastGRNNCell_wComp_ok by blast
  obtain uComp A2
    where u: "FastGRNNCell_uComp (self\<lparr>attrs := A1\<rparr>) vals state
                = Inr (uComp, self\<lparr>attrs := A2\<rparr>)"
    and us: "nrows uComp = nrows state" "ncols uComp = hidden_size self"
    using FastGRNNCell_uComp_ok [of state "self\<lparr>attrs := A1\<rparr>" vals] assms by auto
  show ?thesis
    using FastGRNNCell_update_ok [of wComp state "self\<lparr>attrs := A2\<rparr>" uComp vals]
      ws us assms w u
    by (auto simp: FastGRNNCell_call_def)
qed

lemma FastRNNCell_call_returns:
  assumes "nrows inputs = nrows state" and "ncols state = hidden_size self"
  shows "\<exists>new_h self'. FastRNNCell_call self vals inputs state = Inr ((new_h, new_h), self')"
proof -
  obtain wComp A1
    where w: "FastRNNCell_wComp self vals inputs = Inr (wComp, self\<lparr>attrs := A1\<rparr>)"
    and ws: "nrows wComp = nrows inputs" "ncols wComp = hidden_size self"
    using FastRNNCell_wComp_ok by blast
  obtain uComp A2
    where u: "FastRNNCell_uComp (self\<lparr>attrs := A1\<rparr>) vals state
                = Inr (uComp, self\<lparr>attrs := A2\<rparr>)"
    and us: "nrows uComp = nrows state" "ncols uComp = hidden_size self"
    using FastRNNCell_uComp_ok [of state "self\<lparr>attrs := A1\<rparr>" vals] assms by auto
  show ?thesis
    using FastRNNCell_update_ok [of wComp state "self\<lparr>attrs := A2\<rparr>" uComp vals]
      ws us assms w u
    by (auto simp: FastRNNCell_call_def)
qed

lemma FastGRNNCell_getVars_after_call:
  assumes "FastGRNNCell_call (FastGRNNCell_init h gate_nl update_nl wR uR zetaI nuI nm)
             vals inputs state = Inr (out, self')"
  shows "map_sum id (map var_name) (FastGRNNCell_getVars self') =
         Inr (map (\<lambda>v. nm @ ''/FastGRNNcell/'' @ v)
               ((case wR of None \<Rightarrow> [''W''] | Some _ \<Rightarrow> [''W1'', ''W2'']) @
                (case uR of None \<Rightarrow> [''U''] | Some _ \<Rightarrow> [''U1'', ''U2'']) @
                [''B_g'', ''B_h''] @ [''zeta'', ''nu'']))"
  using assms
  by (cases wR; cases uR)
     (auto simp: FastGRNNCell_call_def FastGRNNCell_wComp_def FastGRNNCell_uComp_def
        FastGRNNCell_update_def FastGRNNCell_init_def FastGRNNCell_scope_def
        FastGRNNCell_getVars_def getattr_def
        get_variable_def setattr_def Let_def ebind_eq_Inr)

lemma FastRNNCell_getVars_after_call:
  assumes "FastRNNCell_call (FastRNNCell_init h update_nl wR uR alphaI betaI nm)
             vals inputs state = Inr (out, self')"
  shows "map_sum id (map var_name) (FastRNNCell_getVars self') =
         Inr (map (\<lambda>v. nm @ ''/FastRNNcell/'' @ v)
               ((case wR of None \<Rightarrow> [''W''] | Some _ \<Rightarrow> [''W1'', ''W2'']) @
                (case uR of None \<Rightarrow> [''U''] | Some _ \<Rightarrow> [''U1'', ''U2'']) @
                [''B_h''] @ [''alpha'', ''beta'']))
         \<and> num_weight_matrices self' = [if wR = None then 1 else 2, if uR = None then 1 else 2]"
  using assms
  by (cases wR; cases uR)
     (auto simp: FastRNNCell_call_def FastRNNCell_wComp_def FastRNNCell_uComp_def
        FastRNNCell_update_def FastRNNCell_init_def FastRNNCell_scope_def
        FastRNNCell_getVars_def getattr_def
        get_variable_def setattr_def Let_def ebind_eq_Inr)

text \<open>Before the first step the attributes do not exist, and \<open>getVars\<close> raises.\<close>

lemma getVars_before_call:
  "FastGRNNCell_getVars (FastGRNNCell_init h gate_nl update_nl wR uR zetaI nuI nm)
     = Inl AttributeError"
  "FastRNNCell_getVars (FastRNNCell_init h update_nl wR uR alphaI betaI nm) = Inl AttributeError"
  by (simp_all add: FastGRNNCell_getVars_def FastRNNCell_getVars_def getattr_def)

section \<open>The nonlinearity selector: the quantized branches and the fallback\<close>

text \<open>
  Claim C5. For every tensor \<open>A\<close>, the selector with the name \<open>quantTanh\<close> returns
  \<open>clip(x, -1, 1)\<close> of every entry \<open>x\<close> of \<open>A\<close>, and with the name \<open>quantSigm\<close> it
  returns \<open>clip((x + 1) / 2, 0, 1)\<close> of every entry.
\<close>

theorem gen_non_linearity_quantized:
  "gen_non_linearity A ''quantTanh'' = tensor_map (\<lambda>x. clip x (- 1) 1) A \<and>
   gen_non_linearity A ''quantSigm'' = tensor_map (\<lambda>x. clip ((x + 1) / 2) 0 1) A"
proof -
  have a: "max (min x 1) (- 1) = clip x (- 1) 1" for x :: real
    by (simp add: clip_def min_def max_def)
  have b: "max (min ((x + 1) / 2) 1) 0 = clip ((x + 1) / 2) 0 1" for x :: real
    by (simp add: clip_def min_def max_def)
  show ?thesis
    by (simp add: gen_non_linearity_map non_linearity_fn_eq a b)
qed

text \<open>
  Claim C8. For every name that is none of \<open>tanh\<close>, \<open>sigmoid\<close>, \<open>relu\<close>,
  \<open>quantTanh\<close>, \<open>quantSigm\<close>, the selector returns the hyperbolic tangent of its
  input: no error is raised.
\<close>

theorem gen_non_linearity_fallback:
  "nm \<notin> {''tanh'', ''sigmoid'', ''relu'', ''quantTanh'', ''quantSigm''} \<Longrightarrow>
   gen_non_linearity A nm = math_ops_tanh A"
  by (simp add: gen_non_linearity_def)

theorem gen_non_linearity_fallback_witness:
  "''softsign'' \<notin> {''tanh'', ''sigmoid'', ''relu'', ''quantTanh'', ''quantSigm''} \<and>
   gen_non_linearity (tab 1 2 (\<lambda>i j. 0)) ''softsign'' = tab 1 2 (\<lambda>i j. 0)"
  using gen_non_linearity_fallback [of "''softsign''" "tab 1 2 (\<lambda>i j. 0)"]
  by (simp add: math_ops_tanh_def tensor_map_def cong: tab_cong)

section \<open>One step of the cells\<close>



text \<open>
  The same step computed: all variables zero, one row of three inputs, the state
  \<open>[[1, 2]]\<close>. The gate is \<open>quantSigm(0) = 1/2\<close> and the candidate \<open>quantTanh(0) = 0\<close>,
  so the new state is half the old one.
\<close>

lemma FastGRNNCell_call_example:
  "map_sum id fst (FastGRNNCell_call
        (FastGRNNCell_init 2 ''quantSigm'' ''quantTanh'' None (Some 1) 1 (- 4) ''FastGRNN'')
        (\<lambda>_ _ _. 0) (tab 1 3 (\<lambda>i j. 1)) (tab 1 2 (\<lambda>i j. real j + 1)))
   = Inr (tab 1 2 (\<lambda>i j. (real j + 1) / 2), tab 1 2 (\<lambda>i j. (real j + 1) / 2))"
  by (simp add: FastGRNNCell_call_def FastGRNNCell_wComp_def FastGRNNCell_uComp_def
      FastGRNNCell_update_def FastGRNNCell_init_def FastGRNNCell_scope_def
      get_variable_def variable_tensor_def setattr_def Let_def matmul_tab broadcast_simps
      non_linearity_fn_def sigmoid_def tab_eq_iff)



text \<open>
  The same step computed: with all variables zero both scalars have sigmoid \<open>1/2\<close>
  and the candidate is \<open>relu(0) = 0\<close>, so the new state is half the old one.
\<close>

lemma FastRNNCell_call_example:
  "map_sum id fst (FastRNNCell_call
        (FastRNNCell_init 2 ''relu'' (Some 1) None (- 3) 3 ''FastRNN'')
        (\<lambda>_ _ _. 0) (tab 2 3 (\<lambda>i j. 1)) (tab 2 2 (\<lambda>i j. real i + real j)))
   = Inr (tab 2 2 (\<lambda>i j. (real i + real j) / 2), tab 2 2 (\<lambda>i j. (real i + real j) / 2))"
  by (simp add: FastRNNCell_call_def FastRNNCell_wComp_def FastRNNCell_uComp_def
      FastRNNCell_update_def FastRNNCell_init_def FastRNNCell_scope_def
      get_variable_def variable_tensor_def setattr_def Let_def matmul_tab broadcast_simps
      non_linearity_fn_def sigmoid_def tab_eq_iff)



section \<open>Low-rank and full-rank cells\<close>



section \<open>The parameter lists\<close>

text \<open>
  Claim C4. After a step of a cell built by the constructor, \<open>getVars\<close> returns the
  variables in the order input weight(s), recurrent weight(s), bias(es), scalars, for
  every rank configuration: for FastGRNNCell \<open>W\<close> (or \<open>W1, W2\<close>), \<open>U\<close> (or \<open>U1, U2\<close>),
  \<open>B_g\<close>, \<open>B_h\<close>, \<open>zeta\<close>, \<open>nu\<close>, which are 6 variables when neither rank is set and 8
  when both are; for FastRNNCell \<open>W\<close> (or \<open>W1, W2\<close>), \<open>U\<close> (or \<open>U1, U2\<close>), \<open>B_h\<close>,
  \<open>alpha\<close>, \<open>beta\<close>. The variables are named by their full names, under the scope of
  the cell.
\<close>

theorem getVars_order:
  "(FastGRNNCell_call (FastGRNNCell_init h gate_nl update_nl wR uR zetaI nuI nm)
       vals inputs state = Inr (out, self') \<longrightarrow>
    map_sum id (map var_name) (FastGRNNCell_getVars self') =
      Inr (map (\<lambda>v. nm @ ''/FastGRNNcell/'' @ v)
            ((case wR of None \<Rightarrow> [''W''] | Some _ \<Rightarrow> [''W1'', ''W2'']) @
             (case uR of None \<Rightarrow> [''U''] | Some _ \<Rightarrow> [''U1'', ''U2'']) @
             [''B_g'', ''B_h''] @ [''zeta'', ''nu''])) \<and>
    map_sum id length (FastGRNNCell_getVars self') =
      Inr (if wR = None \<and> uR = None then 6 else if wR \<noteq> None \<and> uR \<noteq> None then 8 else 7)) \<and>
   (FastRNNCell_call (FastRNNCell_init h update_nl wR uR alphaI betaI nm)
       vals inputs state = Inr (outR, selfR) \<longrightarrow>
    map_sum id (map var_name) (FastRNNCell_getVars selfR) =
      Inr (map (\<lambda>v. nm @ ''/FastRNNcell/'' @ v)
            ((case wR of None \<Rightarrow> [''W''] | Some _ \<Rightarrow> [''W1'', ''W2'']) @
             (case uR of None \<Rightarrow> [''U''] | Some _ \<Rightarrow> [''U1'', ''U2'']) @
             [''B_h''] @ [''alpha'', ''beta''])))"
proof (intro conjI impI)
  assume a: "FastGRNNCell_call (FastGRNNCell_init h gate_nl update_nl wR uR zetaI nuI nm)
       vals inputs state = Inr (out, self')"
  note n = FastGRNNCell_getVars_after_call [OF a]
  show "map_sum id (map var_name) (FastGRNNCell_getVars self') =
      Inr (map (\<lambda>v. nm @ ''/FastGRNNcell/'' @ v)
            ((case wR of None \<Rightarrow> [''W''] | Some _ \<Rightarrow> [''W1'', ''W2'']) @
             (case uR of None \<Rightarrow> [''U''] | Some _ \<Rightarrow> [''U1'', ''U2'']) @
             [''B_g'', ''B_h''] @ [''zeta'', ''nu'']))"
    by (rule n)
  from n obtain Vars where v: "FastGRNNCell_getVars self' = Inr Vars"
    by (cases "FastGRNNCell_getVars self'") auto
  have "length Vars = length (map var_name Vars)"
    by simp
  also have "\<dots> =
      (if wR = None \<and> uR = None then 6 else if wR \<noteq> None \<and> uR \<noteq> None then 8 else 7)"
    using n v by (cases wR; cases uR) auto
  finally show "map_sum id length (FastGRNNCell_getVars self') =
      Inr (if wR = None \<and> uR = None then 6 else if wR \<noteq> None \<and> uR \<noteq> None then 8 else 7)"
    using v by simp
next
  assume a: "FastRNNCell_call (FastRNNCell_init h update_nl wR uR alphaI betaI nm)
       vals inputs state = Inr (outR, selfR)"
  show "map_sum id (map var_name) (FastRNNCell_getVars selfR) =
      Inr (map (\<lambda>v. nm @ ''/FastRNNcell/'' @ v)
            ((case wR of None \<Rightarrow> [''W''] | Some _ \<Rightarrow> [''W1'', ''W2'']) @
             (case uR of None \<Rightarrow> [''U''] | Some _ \<Rightarrow> [''U1'', ''U2'']) @
             [''B_h''] @ [''alpha'', ''beta'']))"
    using FastRNNCell_getVars_after_call [OF a] by simp
qed

theorem getVars_order_witness:
  "(\<exists>out self'.
      FastGRNNCell_call (FastGRNNCell_init 2 ''sigmoid'' ''tanh'' (Some 1) (Some 1) 1 (- 4) ''g'')
        (\<lambda>_ _ _. 0) (tab 1 3 (\<lambda>i j. 1)) (tab 1 2 (\<lambda>i j. 1)) = Inr (out, self') \<and>
      map_sum id (map var_name) (FastGRNNCell_getVars self') =
        Inr [''g/FastGRNNcell/W1'', ''g/FastGRNNcell/W2'', ''g/FastGRNNcell/U1'',
             ''g/FastGRNNcell/U2'', ''g/FastGRNNcell/B_g'', ''g/FastGRNNcell/B_h'',
             ''g/FastGRNNcell/zeta'', ''g/FastGRNNcell/nu''] \<and>
      map_sum id length (FastGRNNCell_getVars self') = Inr 8) \<and>
   (\<exists>out self'.
      FastRNNCell_call (FastRNNCell_init 2 ''tanh'' (Some 1) (Some 1) (- 3) 3 ''g'')
        (\<lambda>_ _ _. 0) (tab 1 3 (\<lambda>i j. 1)) (tab 1 2 (\<lambda>i j. 1)) = Inr (out, self') \<and>
      map_sum id (map var_name) (FastRNNCell_getVars self') =
        Inr [''g/FastRNNcell/W1'', ''g/FastRNNcell/W2'', ''g/FastRNNcell/U1'',
             ''g/FastRNNcell/U2'', ''g/FastRNNcell/B_h'', ''g/FastRNNcell/alpha'',
             ''g/FastRNNcell/beta''])"
proof -
  obtain outG selfG where g:
    "FastGRNNCell_call (FastGRNNCell_init 2 ''sigmoid'' ''tanh'' (Some 1) (Some 1) 1 (- 4) ''g'')
        (\<lambda>_ _ _. 0) (tab 1 3 (\<lambda>i j. 1)) (tab 1 2 (\<lambda>i j. 1)) = Inr (outG, selfG)"
    using FastGRNNCell_call_returns [of "tab 1 3 (\<lambda>i j. 1)" "tab 1 2 (\<lambda>i j. 1)"
        "FastGRNNCell_init 2 ''sigmoid'' ''tanh'' (Some 1) (Some 1) 1 (- 4) ''g''" "\<lambda>_ _ _. 0"]
    by auto
  obtain outR selfR where r:
    "FastRNNCell_call (FastRNNCell_init 2 ''tanh'' (Some 1) (Some 1) (- 3) 3 ''g'')
        (\<lambda>_ _ _. 0) (tab 1 3 (\<lambda>i j. 1)) (tab 1 2 (\<lambda>i j. 1)) = Inr (outR, selfR)"
    using FastRNNCell_call_returns [of "tab 1 3 (\<lambda>i j. 1)" "tab 1 2 (\<lambda>i j. 1)"
        "FastRNNCell_init 2 ''tanh'' (Some 1) (Some 1) (- 3) 3 ''g''" "\<lambda>_ _ _. 0"]
    by auto
  show ?thesis
    using g r getVars_order [of 2 "''sigmoid''" "''tanh''" "Some 1" "Some 1" 1 "- 4" "''g''"
        "\<lambda>_ _ _. 0" "tab 1 3 (\<lambda>i j. 1)" "tab 1 2 (\<lambda>i j. 1)" outG selfG "- 3" 3 outR selfR]
    by simp
qed

text \<open>
  Claim C10. After a step of a FastRNNCell built by the constructor, \<open>getVars\<close> returns
  a list whose length is \<open>num_weight_matrices[0] + num_weight_matrices[1] + 3\<close>, where
  \<open>num_weight_matrices[i]\<close> is 2 when the corresponding rank was set and 1 otherwise:
  the 5 variables \<open>W, U, B_h, alpha, beta\<close> when neither rank is set, and the 7
  variables \<open>W1, W2, U1, U2, B_h, alpha, beta\<close> when both are.
\<close>

theorem FastRNNCell_getVars_count:
  assumes "FastRNNCell_call (FastRNNCell_init h update_nl wR uR alphaI betaI nm)
             vals inputs state = Inr (out, self')"
  shows "\<exists>Vars. FastRNNCell_getVars self' = Inr Vars \<and>
     length Vars = num_weight_matrices self' ! 0 + num_weight_matrices self' ! 1 + 3 \<and>
     num_weight_matrices self' ! 0 = (if wR = None then 1 else 2) \<and>
     num_weight_matrices self' ! 1 = (if uR = None then 1 else 2) \<and>
     (wR = None \<and> uR = None \<longrightarrow>
        map var_name Vars =
          map (\<lambda>v. nm @ ''/FastRNNcell/'' @ v) [''W'', ''U'', ''B_h'', ''alpha'', ''beta'']) \<and>
     (wR \<noteq> None \<and> uR \<noteq> None \<longrightarrow>
        map var_name Vars =
          map (\<lambda>v. nm @ ''/FastRNNcell/'' @ v)
            [''W1'', ''W2'', ''U1'', ''U2'', ''B_h'', ''alpha'', ''beta''])"
proof -
  note a = FastRNNCell_getVars_after_call [OF assms]
  then obtain Vars where v: "FastRNNCell_getVars self' = Inr Vars"
    by (cases "FastRNNCell_getVars self'") auto
  from a v have n: "map var_name Vars = map (\<lambda>v. nm @ ''/FastRNNcell/'' @ v)
               ((case wR of None \<Rightarrow> [''W''] | Some _ \<Rightarrow> [''W1'', ''W2'']) @
                (case uR of None \<Rightarrow> [''U''] | Some _ \<Rightarrow> [''U1'', ''U2'']) @
                [''B_h''] @ [''alpha'', ''beta''])"
    by simp
  have "length Vars = length (map var_name Vars)"
    by simp
  also have "\<dots> = (if wR = None then 1 else 2) + (if uR = None then 1 else 2) + 3"
    unfolding n by (cases wR; cases uR) simp_all
  finally have l:
    "length Vars = (if wR = None then 1 else 2) + (if uR = None then 1 else 2) + 3" .
  show ?thesis
    using v n l a by (cases wR; cases uR) simp_all
qed

theorem FastRNNCell_getVars_count_witness:
  "\<exists>out self' Vars.
      FastRNNCell_call (FastRNNCell_init 2 ''tanh'' None None (- 3) 3 ''r'')
        (\<lambda>_ _ _. 0) (tab 1 3 (\<lambda>i j. 1)) (tab 1 2 (\<lambda>i j. 1)) = Inr (out, self') \<and>
      FastRNNCell_getVars self' = Inr Vars \<and> length Vars = 5 \<and>
      num_weight_matrices self' = [1, 1] \<and>
      map var_name Vars =
        [''r/FastRNNcell/W'', ''r/FastRNNcell/U'', ''r/FastRNNcell/B_h'',
         ''r/FastRNNcell/alpha'', ''r/FastRNNcell/beta'']"
proof -
  obtain out self' where r:
    "FastRNNCell_call (FastRNNCell_init 2 ''tanh'' None None (- 3) 3 ''r'')
        (\<lambda>_ _ _. 0) (tab 1 3 (\<lambda>i j. 1)) (tab 1 2 (\<lambda>i j. 1)) = Inr (out, self')"
    using FastRNNCell_call_returns [of "tab 1 3 (\<lambda>i j. 1)" "tab 1 2 (\<lambda>i j. 1)"
        "FastRNNCell_init 2 ''tanh'' None None (- 3) 3 ''r''" "\<lambda>_ _ _. 0"]
    by auto
  have "num_weight_matrices self' = [1, 1]"
    using FastRNNCell_getVars_after_call [OF r] by simp
  then show ?thesis
    using r FastRNNCell_getVars_count [OF r] by auto
qed

section \<open>The cell type tag\<close>



section \<open>The assign operations and the length of the list\<close>

text \<open>
  What \<open>EMI_GRU.addBaseAssignOps\<close> does with a list of the length its own assertion
  admits, when the name \<open>graph\<close> is bound to a graph that holds the four tensors: the
  third element of a list of two is read.
\<close>

lemma EMI_GRU_addBaseAssignOps_two:
  "EMI_GRU_addBaseAssignOps self
     (Some (g(''rnn/EMI-GRU-Cell/gates/kernel:0'' \<mapsto> kernel1_ref,
              ''rnn/EMI-GRU-Cell/gates/bias:0'' \<mapsto> bias1_ref,
              ''rnn/EMI-GRU-Cell/candidate/kernel:0'' \<mapsto> kernel2_ref,
              ''rnn/EMI-GRU-Cell/candidate/bias:0'' \<mapsto> bias2_ref)))
     (Some [kernel1, bias1]) = Inl IndexError"
  by (simp add: EMI_GRU_addBaseAssignOps_def graph_get_tensor_by_name_def py_index_def)

lemma EMI_GRU_addBaseAssignOps_unbound_graph:
  "EMI_GRU_addBaseAssignOps self None (Some [kernel1, bias1]) = Inl NameError"
  by (simp add: EMI_GRU_addBaseAssignOps_def graph_get_tensor_by_name_def)

lemma EMI_GRU_addBaseAssignOps_not_two:
  "length xs \<noteq> 2 \<Longrightarrow> EMI_GRU_addBaseAssignOps self graph (Some xs) = Inl AssertionError"
  by (simp add: EMI_GRU_addBaseAssignOps_def)

lemma EMI_GRU_addBaseAssignOps_fails:
  "\<exists>e. EMI_GRU_addBaseAssignOps self graph initVarList = Inl e"
proof (cases initVarList)
  case None
  then show ?thesis by (simp add: EMI_GRU_addBaseAssignOps_def)
next
  case (Some xs)
  show ?thesis
  proof (cases "length xs = 2")
    case False
    with Some show ?thesis by (simp add: EMI_GRU_addBaseAssignOps_not_two)
  next
    case True
    then have "py_index xs 2 = Inl IndexError"
      by (simp add: py_index_def)
    with Some True show ?thesis
      by (auto simp: EMI_GRU_addBaseAssignOps_def ebind_def split: sum.splits)
  qed
qed

text \<open>
  Claim C6 says that a list of the wrong length makes \<open>addBaseAssignOps\<close> fail at once
  with an error that reports the expected and the actual count, that nothing is read
  past the end of the list, and that \<open>EMI_GRU.addBaseAssignOps\<close> reads only indices
  its own length check admits. The code of \<open>EMI_GRU\<close> does otherwise: its check admits
  lists of length 2 only, and it then reads the indices 0 to 3. With the four tensors
  in the graph a list of two elements passes the check and the read of index 2
  raises \<open>IndexError\<close>; a list of the four tensors the cell has is rejected by the
  check; no argument makes the method return.
\<close>

theorem EMI_GRU_addBaseAssignOps_reads_beyond_its_check:
  "EMI_GRU_addBaseAssignOps self
     (Some (g(''rnn/EMI-GRU-Cell/gates/kernel:0'' \<mapsto> kernel1_ref,
              ''rnn/EMI-GRU-Cell/gates/bias:0'' \<mapsto> bias1_ref,
              ''rnn/EMI-GRU-Cell/candidate/kernel:0'' \<mapsto> kernel2_ref,
              ''rnn/EMI-GRU-Cell/candidate/bias:0'' \<mapsto> bias2_ref)))
     (Some [kernel1, bias1]) = Inl IndexError \<and>
   EMI_GRU_addBaseAssignOps self graph (Some [kernel1, bias1, kernel2, bias2])
     = Inl AssertionError \<and>
   (\<exists>e. EMI_GRU_addBaseAssignOps self graph initVarList = Inl e)"
  using EMI_GRU_addBaseAssignOps_two EMI_GRU_addBaseAssignOps_not_two [of "[kernel1, bias1, kernel2, bias2]"]
    EMI_GRU_addBaseAssignOps_fails
  by simp

text \<open>
  \<open>EMI_FastRNN.addBaseAssignOps\<close> and \<open>EMI_FastGRNN.addBaseAssignOps\<close> have no length
  check. With neither rank set and the tensors in the graph, a list that is too short
  raises \<open>IndexError\<close> at the first missing element, and a list that is too long is
  accepted, the surplus ignored.
\<close>

lemma EMI_FastRNN_addBaseAssignOps_short:
  "EMI_FastRNN_addBaseAssignOps
     \<lparr>assignOps = ops, EMI_FastCell.wRank = None, EMI_FastCell.uRank = None\<rparr>
     (Some (g(''rnn/fast_rnn_cell/EMI-FastRNN-Cell/FastRNNcell/W:0'' \<mapsto> W_ref,
              ''rnn/fast_rnn_cell/EMI-FastRNN-Cell/FastRNNcell/U:0'' \<mapsto> U_ref,
              ''rnn/fast_rnn_cell/EMI-FastRNN-Cell/FastRNNcell/alpha:0'' \<mapsto> alpha_ref,
              ''rnn/fast_rnn_cell/EMI-FastRNN-Cell/FastRNNcell/beta:0'' \<mapsto> beta_ref,
              ''rnn/fast_rnn_cell/EMI-FastRNN-Cell/FastRNNcell/B_h:0'' \<mapsto> bias_ref)))
     (Some [W, U, alpha, beta]) = Inl IndexError"
  by (simp add: EMI_FastRNN_addBaseAssignOps_def graph_get_tensor_by_name_def py_index_def
      extend_assignOps_def)

lemma EMI_FastRNN_addBaseAssignOps_long:
  "EMI_FastRNN_addBaseAssignOps
     \<lparr>assignOps = ops, EMI_FastCell.wRank = None, EMI_FastCell.uRank = None\<rparr>
     (Some (g(''rnn/fast_rnn_cell/EMI-FastRNN-Cell/FastRNNcell/W:0'' \<mapsto> W_ref,
              ''rnn/fast_rnn_cell/EMI-FastRNN-Cell/FastRNNcell/U:0'' \<mapsto> U_ref,
              ''rnn/fast_rnn_cell/EMI-FastRNN-Cell/FastRNNcell/alpha:0'' \<mapsto> alpha_ref,
              ''rnn/fast_rnn_cell/EMI-FastRNN-Cell/FastRNNcell/beta:0'' \<mapsto> beta_ref,
              ''rnn/fast_rnn_cell/EMI-FastRNN-Cell/FastRNNcell/B_h:0'' \<mapsto> bias_ref)))
     (Some [W, U, alpha, beta, bias, surplus]) =
   Inr \<lparr>assignOps = ops @ [Assign W_ref W, Assign U_ref U, Assign alpha_ref alpha,
                            Assign beta_ref beta, Assign bias_ref bias],
        EMI_FastCell.wRank = None, EMI_FastCell.uRank = None\<rparr>"
  by (simp add: EMI_FastRNN_addBaseAssignOps_def graph_get_tensor_by_name_def py_index_def
      extend_assignOps_def)

lemma EMI_FastGRNN_addBaseAssignOps_long:
  "EMI_FastGRNN_addBaseAssignOps
     \<lparr>assignOps = ops, EMI_FastCell.wRank = None, EMI_FastCell.uRank = None\<rparr>
     (Some (g(''rnn/fast_grnn_cell/EMI-FastGRNN-Cell/FastGRNNcell/W:0'' \<mapsto> W_ref,
              ''rnn/fast_grnn_cell/EMI-FastGRNN-Cell/FastGRNNcell/U:0'' \<mapsto> U_ref,
              ''rnn/fast_grnn_cell/EMI-FastGRNN-Cell/FastGRNNcell/zeta:0'' \<mapsto> zeta_ref,
              ''rnn/fast_grnn_cell/EMI-FastGRNN-Cell/FastGRNNcell/nu:0'' \<mapsto> nu_ref,
              ''rnn/fast_grnn_cell/EMI-FastGRNN-Cell/FastGRNNcell/B_g:0'' \<mapsto> gate_bias_ref,
              ''rnn/fast_grnn_cell/EMI-FastGRNN-Cell/FastGRNNcell/B_h:0'' \<mapsto> update_bias_ref)))
     (Some [W, U, zeta, nu, gate_bias, update_bias, surplus]) =
   Inr \<lparr>assignOps = ops @ [Assign W_ref W, Assign U_ref U, Assign zeta_ref zeta,
                            Assign nu_ref nu, Assign gate_bias_ref gate_bias,
                            Assign update_bias_ref update_bias],
        EMI_FastCell.wRank = None, EMI_FastCell.uRank = None\<rparr>"
  by (simp add: EMI_FastGRNN_addBaseAssignOps_def graph_get_tensor_by_name_def py_index_def
      extend_assignOps_def)

end
